theory Spec2Isabelle
  imports Complex_Main
begin

section \<open>Floating-point values\<close>

text \<open>
  The tool computes on Python and numpy floats.  A value is a finite number, one of the two
  infinities, or NaN.  Finite arithmetic is taken as exact (no rounding, no overflow, no
  signed zero); the special values follow IEEE 754: NaN propagates through every operation,
  \<open>inf - inf\<close>, \<open>0 * inf\<close>, \<open>0 / 0\<close> and \<open>inf / inf\<close> are NaN, and every
  comparison with NaN is false.
\<close>

datatype fl = NaN | NInf | Fin real | PInf

fun fneg :: "fl \<Rightarrow> fl" where
  "fneg NaN = NaN"
| "fneg NInf = PInf"
| "fneg PInf = NInf"
| "fneg (Fin a) = Fin (- a)"

fun fadd :: "fl \<Rightarrow> fl \<Rightarrow> fl" where
  "fadd NaN y = NaN"
| "fadd x NaN = NaN"
| "fadd PInf NInf = NaN"
| "fadd NInf PInf = NaN"
| "fadd PInf y = PInf"
| "fadd x PInf = PInf"
| "fadd NInf y = NInf"
| "fadd x NInf = NInf"
| "fadd (Fin a) (Fin b) = Fin (a + b)"

definition fsub :: "fl \<Rightarrow> fl \<Rightarrow> fl" where
  "fsub x y = fadd x (fneg y)"

fun fsign :: "fl \<Rightarrow> int" where
  "fsign NaN = 0"
| "fsign NInf = - 1"
| "fsign PInf = 1"
| "fsign (Fin a) = (if a < 0 then - 1 else if a = 0 then 0 else 1)"

definition signed_inf :: "int \<Rightarrow> fl" where
  "signed_inf s = (if s < 0 then NInf else if s = 0 then NaN else PInf)"

fun fmul :: "fl \<Rightarrow> fl \<Rightarrow> fl" where
  "fmul NaN y = NaN"
| "fmul x NaN = NaN"
| "fmul (Fin a) (Fin b) = Fin (a * b)"
| "fmul x y = signed_inf (fsign x * fsign y)"

fun fdiv :: "fl \<Rightarrow> fl \<Rightarrow> fl" where
  "fdiv NaN y = NaN"
| "fdiv x NaN = NaN"
| "fdiv (Fin a) (Fin b) = (if b = 0 then signed_inf (fsign (Fin a)) else Fin (a / b))"
| "fdiv (Fin a) y = Fin 0"
| "fdiv x (Fin b) = signed_inf (fsign x * (if b < 0 then - 1 else 1))"
| "fdiv x y = NaN"

fun fsqrt :: "fl \<Rightarrow> fl" where
  "fsqrt NaN = NaN"
| "fsqrt NInf = NaN"
| "fsqrt PInf = PInf"
| "fsqrt (Fin a) = (if a < 0 then NaN else Fin (sqrt a))"

fun flt :: "fl \<Rightarrow> fl \<Rightarrow> bool" where
  "flt NaN y = False"
| "flt x NaN = False"
| "flt PInf y = False"
| "flt x NInf = False"
| "flt NInf y = True"
| "flt x PInf = True"
| "flt (Fin a) (Fin b) = (a < b)"

definition fle :: "fl \<Rightarrow> fl \<Rightarrow> bool" where
  "fle x y = (x \<noteq> NaN \<and> y \<noteq> NaN \<and> (x = y \<or> flt x y))"

definition fge :: "fl \<Rightarrow> fl \<Rightarrow> bool" where
  "fge x y = fle y x"

fun is_finite :: "fl \<Rightarrow> bool" where
  "is_finite (Fin a) = True"
| "is_finite x = False"

section \<open>pandas Series reductions\<close>

text \<open>
  A column of a DataFrame is a list of values in row order.  The reductions \<open>sum\<close>,
  \<open>mean\<close>, \<open>min\<close> and \<open>max\<close> of pandas skip NaN entries (\<open>skipna=True\<close>); over no
  remaining entry \<open>sum\<close> is 0 and the other three are NaN.
\<close>

definition dropna :: "fl list \<Rightarrow> fl list" where
  "dropna xs = filter (\<lambda>x. x \<noteq> NaN) xs"

definition fmin :: "fl \<Rightarrow> fl \<Rightarrow> fl" where
  "fmin x y = (if flt y x then y else x)"

definition fmax :: "fl \<Rightarrow> fl \<Rightarrow> fl" where
  "fmax x y = (if flt x y then y else x)"

definition series_sum :: "fl list \<Rightarrow> fl" where
  "series_sum xs = foldl fadd (Fin 0) (dropna xs)"

definition series_mean :: "fl list \<Rightarrow> fl" where
  "series_mean xs =
     (let ys = dropna xs
      in if ys = [] then NaN else fdiv (foldl fadd (Fin 0) ys) (Fin (real (length ys))))"

definition series_min :: "fl list \<Rightarrow> fl" where
  "series_min xs = (case dropna xs of [] \<Rightarrow> NaN | y # ys \<Rightarrow> foldl fmin y ys)"

definition series_max :: "fl list \<Rightarrow> fl" where
  "series_max xs = (case dropna xs of [] \<Rightarrow> NaN | y # ys \<Rightarrow> foldl fmax y ys)"

section \<open>Data model\<close>

text \<open>
  A business is the dict built by \<open>add_business\<close>.  A row of \<open>sa_data\<close> carries the columns
  the tool reads by a fixed name as fields, and every other numeric column of the dataset
  (population density, age bands, percentages) through \<open>extra\<close>, keyed by column name.
  \<open>dtypes\<close> lists the labels of the DataFrame with the kind of their values; a label is a
  column of the frame iff it occurs there.  The working column \<open>score\<close> of
  \<open>find_optimal_location\<close> is kept as a list of its own beside the candidate rows.
\<close>

record business =
  name :: string
  lat :: fl
  lon :: fl
  catchment :: "string list"

record sa_row =
  SA1 :: string
  latitude :: fl
  longitude :: fl
  postcode :: string
  suburb :: string
  total_population :: fl
  avg_income :: fl
  avg_age :: fl
  assigned_business :: "string option"
  distance_to_business :: fl
  extra :: "string \<Rightarrow> fl"

datatype dtype = Float64 | Object

text \<open>The exceptions the tool can raise.\<close>

datatype error = ValueError | KeyError string | TypeError

record tool =
  sa_data :: "sa_row list"
  dtypes :: "(string \<times> dtype) list"
  businesses :: "business list"

definition in_columns :: "tool \<Rightarrow> string \<Rightarrow> bool" where
  "in_columns t c = (map_of (dtypes t) c \<noteq> None)"

definition col :: "string \<Rightarrow> sa_row \<Rightarrow> fl" where
  "col c r =
     (if c = ''latitude'' then latitude r
      else if c = ''longitude'' then longitude r
      else if c = ''total_population'' then total_population r
      else if c = ''avg_income'' then avg_income r
      else if c = ''avg_age'' then avg_age r
      else if c = ''distance_to_business'' then distance_to_business r
      else extra r c)"

section \<open>Facility registry and catchment assignment\<close>

text \<open>
  One entry of \<open>distance.cdist\<close> of scipy with its default metric, as the exclusion
  filtering uses it: the square root of the sum of the squared differences, NaN and the
  infinities propagating.
\<close>

definition euclidean :: "fl \<times> fl \<Rightarrow> fl \<times> fl \<Rightarrow> fl" where
  "euclidean u v =
     (let d0 = fsub (fst u) (fst v); d1 = fsub (snd u) (snd v)
      in fsqrt (fadd (fmul d0 d0) (fmul d1 d1)))"

definition dist_to :: "sa_row \<Rightarrow> business \<Rightarrow> fl" where
  "dist_to r b = euclidean (latitude r, longitude r) (lat b, lon b)"

text \<open>
  The constructor: rows without latitude or longitude are dropped, every row starts
  unassigned at distance \<open>inf\<close>, the registry starts empty.  The rows are taken with the
  percentage columns already merged in.
\<close>

definition init :: "sa_row list \<Rightarrow> (string \<times> dtype) list \<Rightarrow> tool" where
  "init rows dts =
     \<lparr>sa_data = map (\<lambda>r. r\<lparr>assigned_business := None, distance_to_business := PInf\<rparr>)
                  (filter (\<lambda>r. latitude r \<noteq> NaN \<and> longitude r \<noteq> NaN) rows),
      dtypes = dts,
      businesses = []\<rparr>"

text \<open>
  The scan calls \<open>distance.euclidean\<close> of scipy, which either returns a float or raises.
  The functions of the registry take that call as a parameter \<open>metric\<close>, so that what is
  proved of them holds of whatever the library returns, rounding and overflow included.
\<close>

type_synonym metric = "fl \<times> fl \<Rightarrow> fl \<times> fl \<Rightarrow> error + fl"

text \<open>
  \<open>scipy_euclidean\<close> is the library's function as the examples run it.  It subtracts the
  operands, raises \<open>ValueError\<close> when a difference is NaN or infinite (the finiteness check
  of \<open>scipy.linalg.norm\<close>), and returns the norm of the differences otherwise.  A result
  beyond the range of a double overflows to an infinity; rounding within the range is not
  modelled.
\<close>

definition max_float :: real where
  "max_float = (2 - 1 / 2 ^ 52) * 2 ^ 1023"

definition to_float :: "real \<Rightarrow> fl" where
  "to_float x = (if max_float < x then PInf else if x < - max_float then NInf else Fin x)"

definition difference :: "fl \<Rightarrow> fl \<Rightarrow> fl" where
  "difference x y = (case fsub x y of Fin d \<Rightarrow> to_float d | z \<Rightarrow> z)"

definition scipy_euclidean :: metric where
  "scipy_euclidean u v =
     (case (difference (fst u) (fst v), difference (snd u) (snd v)) of
        (Fin d0, Fin d1) \<Rightarrow> Inr (to_float (sqrt (d0 * d0 + d1 * d1)))
      | _ \<Rightarrow> Inl ValueError)"

text \<open>
  The inner loop of \<open>_recalculate_catchments\<close>, on the pair \<open>(min_dist, nearest_business)\<close>.
  An exception of the distance call ends the loop.
\<close>

fun nearest_loop ::
  "metric \<Rightarrow> fl \<times> fl \<Rightarrow> business list \<Rightarrow> fl \<times> string option \<Rightarrow> error + fl \<times> string option"
  where
  "nearest_loop euclid sa_coords [] acc = Inr acc"
| "nearest_loop euclid sa_coords (b # bs) (min_dist, nearest_business) =
     (case euclid sa_coords (lat b, lon b) of
        Inl err \<Rightarrow> Inl err
      | Inr d \<Rightarrow>
          if flt d min_dist then nearest_loop euclid sa_coords bs (d, Some (name b))
          else nearest_loop euclid sa_coords bs (min_dist, nearest_business))"

text \<open>
  The loop over the rows.  A row is written once its scan has returned; when a scan raises,
  that row and the rows after it keep what they held (the reset values), and the exception
  is the second component.
\<close>

fun assign_rows :: "metric \<Rightarrow> business list \<Rightarrow> sa_row list \<Rightarrow> sa_row list \<times> error option" where
  "assign_rows euclid bs [] = ([], None)"
| "assign_rows euclid bs (r # rs) =
     (case nearest_loop euclid (latitude r, longitude r) bs (PInf, None) of
        Inl err \<Rightarrow> (r # rs, Some err)
      | Inr (min_dist, nearest_business) \<Rightarrow>
          (let (rs', raised) = assign_rows euclid bs rs
           in (r\<lparr>assigned_business := nearest_business, distance_to_business := min_dist\<rparr> # rs',
               raised)))"

definition reset_row :: "sa_row \<Rightarrow> sa_row" where
  "reset_row r = r\<lparr>assigned_business := None, distance_to_business := PInf\<rparr>"

definition update_catchment :: "sa_row list \<Rightarrow> business \<Rightarrow> business" where
  "update_catchment rows b =
     b\<lparr>catchment := map SA1 (filter (\<lambda>r. assigned_business r = Some (name b)) rows)\<rparr>"

text \<open>
  \<open>_recalculate_catchments\<close> returns the tool as the call leaves it and the exception, if one
  was raised.  After an exception the catchment lists are the old ones.
\<close>

definition recalculate_catchments :: "metric \<Rightarrow> tool \<Rightarrow> tool \<times> error option" where
  "recalculate_catchments euclid t =
     (if businesses t = [] then (t\<lparr>sa_data := map reset_row (sa_data t)\<rparr>, None)
      else
        let (rows, raised) = assign_rows euclid (businesses t) (map reset_row (sa_data t))
        in case raised of
             Some err \<Rightarrow> (t\<lparr>sa_data := rows\<rparr>, Some err)
           | None \<Rightarrow>
               (t\<lparr>sa_data := rows, businesses := map (update_catchment rows) (businesses t)\<rparr>,
                None))"

text \<open>
  \<open>add_business\<close> appends first and recomputes afterwards, so the business stays in the
  registry when the recomputation raises.
\<close>

definition add_business ::
  "metric \<Rightarrow> tool \<Rightarrow> string \<Rightarrow> fl \<Rightarrow> fl \<Rightarrow> tool \<times> (error + business)" where
  "add_business euclid t nm la lo =
     (let business = \<lparr>name = nm, lat = la, lon = lo, catchment = []\<rparr>;
          (t', raised) = recalculate_catchments euclid (t\<lparr>businesses := businesses t @ [business]\<rparr>)
      in case raised of
           Some err \<Rightarrow> (t', Inl err)
         | None \<Rightarrow> (t', Inr (last (businesses t'))))"

definition remove_business :: "metric \<Rightarrow> tool \<Rightarrow> string \<Rightarrow> tool \<times> error option" where
  "remove_business euclid t nm =
     recalculate_catchments euclid
       (t\<lparr>businesses := filter (\<lambda>b. name b \<noteq> nm) (businesses t)\<rparr>)"

section \<open>Catchment summary\<close>

text \<open>
  \<open>business_name\<close> is \<open>None\<close> or a string, \<open>demographic_filters\<close> is \<open>None\<close> or a dict
  from filter names to numbers (an association list with distinct keys).  Python's
  \<open>if business_name:\<close> and \<open>if demographic_filters:\<close> take \<open>None\<close>, the empty string and
  the empty dict as false.  The age filter is accepted and does nothing.
\<close>

definition selected_rows :: "tool \<Rightarrow> string option \<Rightarrow> sa_row list" where
  "selected_rows t business_name =
     (case business_name of
        None \<Rightarrow> sa_data t
      | Some n \<Rightarrow>
          if n \<noteq> [] then filter (\<lambda>r. assigned_business r = Some n) (sa_data t)
          else sa_data t)"

definition apply_filters :: "(string \<times> fl) list option \<Rightarrow> sa_row list \<Rightarrow> sa_row list" where
  "apply_filters demographic_filters catchment_data =
     (case demographic_filters of
        None \<Rightarrow> catchment_data
      | Some f \<Rightarrow>
          if f = [] then catchment_data
          else
            let d1 = (case map_of f ''min_income'' of
                        None \<Rightarrow> catchment_data
                      | Some v \<Rightarrow> filter (\<lambda>r. fge (avg_income r) v) catchment_data);
                d2 = (case map_of f ''max_income'' of
                        None \<Rightarrow> d1
                      | Some v \<Rightarrow> filter (\<lambda>r. fle (avg_income r) v) d1)
            in d2)"

definition catchment_rows ::
  "tool \<Rightarrow> string option \<Rightarrow> (string \<times> fl) list option \<Rightarrow> sa_row list" where
  "catchment_rows t business_name demographic_filters =
     apply_filters demographic_filters (selected_rows t business_name)"

record summary =
  s_total_population :: fl
  s_num_areas :: nat
  s_avg_income :: fl
  s_avg_age :: fl
  s_avg_distance :: fl
  s_max_distance :: fl

definition summarize :: "sa_row list \<Rightarrow> summary" where
  "summarize catchment_data =
     \<lparr>s_total_population = series_sum (map total_population catchment_data),
      s_num_areas = length catchment_data,
      s_avg_income = series_mean (map avg_income catchment_data),
      s_avg_age = series_mean (map avg_age catchment_data),
      s_avg_distance = series_mean (map distance_to_business catchment_data),
      s_max_distance = series_max (map distance_to_business catchment_data)\<rparr>"

definition get_catchment_summary ::
  "tool \<Rightarrow> string option \<Rightarrow> (string \<times> fl) list option \<Rightarrow> summary" where
  "get_catchment_summary t business_name demographic_filters =
     summarize (catchment_rows t business_name demographic_filters)"

section \<open>Site selection\<close>

text \<open>
  Candidate filtering: one pass per business, each keeping the rows whose distance to that
  business is \<open>>=\<close> the radius.
\<close>

fun exclusion_loop :: "business list \<Rightarrow> fl \<Rightarrow> sa_row list \<Rightarrow> sa_row list" where
  "exclusion_loop [] min_distance candidates = candidates"
| "exclusion_loop (b # bs) min_distance candidates =
     exclusion_loop bs min_distance (filter (\<lambda>r. fge (dist_to r b) min_distance) candidates)"

definition exclusion_filter :: "tool \<Rightarrow> fl \<Rightarrow> sa_row list" where
  "exclusion_filter t min_distance_from_existing =
     (if businesses t \<noteq> [] \<and> flt (Fin 0) min_distance_from_existing
      then exclusion_loop (businesses t) min_distance_from_existing (sa_data t)
      else sa_data t)"

text \<open>The expression \<open>(s - s.min()) / (s.max() - s.min())\<close> on a column \<open>s\<close>.\<close>

definition minmax_normalize :: "fl list \<Rightarrow> fl list" where
  "minmax_normalize s =
     map (\<lambda>x. fdiv (fsub x (series_min s)) (fsub (series_max s) (series_min s))) s"

text \<open>\<open>candidates['score'] += normalized * w\<close>, row by row.\<close>

definition add_weighted :: "fl list \<Rightarrow> fl list \<Rightarrow> real \<Rightarrow> fl list" where
  "add_weighted score normalized w = map2 fadd score (map (\<lambda>x. fmul x (Fin w)) normalized)"

text \<open>
  The scoring block.  The score column starts at 0.0 and receives the three contributions
  in the order of the source.  When the demographic contribution is computed, \<open>score\<close> is
  already a column of the candidates and holds the running score; arithmetic on a column of
  strings raises.
\<close>

definition score_candidates ::
  "tool \<Rightarrow> (string \<times> string) list option \<Rightarrow> sa_row list \<Rightarrow> error + fl list" where
  "score_candidates t target_demographics candidates =
     (let score0 = replicate (length candidates) (Fin 0);
          score1 =
            (if in_columns t ''population_density''
             then add_weighted score0
                    (minmax_normalize (map (col ''population_density'') candidates)) (4 / 10)
             else score0);
          score2 =
            (case target_demographics of
               None \<Rightarrow> Inr score1
             | Some d \<Rightarrow>
                 if d = [] then Inr score1
                 else
                   (case map_of d ''age_group'' of
                      None \<Rightarrow> Inr score1
                    | Some age_col \<Rightarrow>
                        if age_col = ''score''
                        then Inr (add_weighted score1 (minmax_normalize score1) (4 / 10))
                        else
                          (case map_of (dtypes t) age_col of
                             None \<Rightarrow> Inr score1
                           | Some Object \<Rightarrow> Inl TypeError
                           | Some Float64 \<Rightarrow>
                               Inr (add_weighted score1
                                      (minmax_normalize (map (col age_col) candidates)) (4 / 10)))))
      in case score2 of
           Inl e \<Rightarrow> Inl e
         | Inr sc \<Rightarrow>
             if businesses t \<noteq> []
             then Inr (add_weighted sc
                         (minmax_normalize (map distance_to_business candidates)) (2 / 10))
             else Inr sc)"

text \<open>
  \<open>DataFrame.nlargest(n, 'score')\<close>: the first \<open>n\<close> rows by descending score, rows of equal
  score in their original order, rows with a NaN score last.
\<close>

fun insert_desc :: "sa_row \<times> fl \<Rightarrow> (sa_row \<times> fl) list \<Rightarrow> (sa_row \<times> fl) list" where
  "insert_desc x [] = [x]"
| "insert_desc x (y # ys) =
     (if flt (snd x) (snd y) then y # insert_desc x ys else x # y # ys)"

definition nlargest :: "int \<Rightarrow> (sa_row \<times> fl) list \<Rightarrow> (sa_row \<times> fl) list" where
  "nlargest n scored =
     take (nat n)
       (foldr insert_desc (filter (\<lambda>x. snd x \<noteq> NaN) scored) []
        @ filter (\<lambda>x. snd x = NaN) scored)"

record location =
  l_SA1 :: string
  l_latitude :: fl
  l_longitude :: fl
  l_postcode :: string
  l_suburb :: string
  l_score :: fl
  l_population :: fl
  l_population_density :: fl

definition make_location :: "sa_row \<times> fl \<Rightarrow> location" where
  "make_location x =
     \<lparr>l_SA1 = SA1 (fst x), l_latitude = latitude (fst x), l_longitude = longitude (fst x),
      l_postcode = postcode (fst x), l_suburb = suburb (fst x), l_score = snd x,
      l_population = total_population (fst x),
      l_population_density = col ''population_density'' (fst x)\<rparr>"

definition find_optimal_location ::
  "tool \<Rightarrow> int \<Rightarrow> (string \<times> string) list option \<Rightarrow> fl \<Rightarrow> error + location list" where
  "find_optimal_location t num_locations target_demographics min_distance_from_existing =
     (let candidates = exclusion_filter t min_distance_from_existing
      in if length candidates = 0 then Inr []
         else
           (case score_candidates t target_demographics candidates of
              Inl e \<Rightarrow> Inl e
            | Inr score \<Rightarrow>
                let top_candidates = nlargest num_locations (zip candidates score)
                in if top_candidates \<noteq> [] \<and> \<not> in_columns t ''population_density''
                   then Inl (KeyError ''population_density'')
                   else Inr (map make_location top_candidates)))"

section \<open>The dashboard's handler for the Add Business button\<close>

text \<open>
  The handler shows an error for an empty name and calls \<open>add_business\<close> otherwise; an
  exception of that call is not caught there, so no success message is shown.  The tool is
  the object of the session either way.
\<close>

datatype message = Success string | Error string | Raised error

definition add_business_button ::
  "metric \<Rightarrow> tool \<Rightarrow> string \<Rightarrow> fl \<Rightarrow> fl \<Rightarrow> tool \<times> message" where
  "add_business_button euclid t new_name new_lat new_lon =
     (if new_name \<noteq> []
      then (case add_business euclid t new_name new_lat new_lon of
              (t', Inr b) \<Rightarrow> (t', Success (''Added '' @ new_name @ ''!''))
            | (t', Inl err) \<Rightarrow> (t', Raised err))
      else (t, Error ''Please enter a business name''))"

section \<open>Registry mutations in sequence\<close>

text \<open>
  The tool after a sequence of calls, each taken with the state the call before it left,
  whether it returned or raised (the bulk import catches the exception and goes on).
\<close>

datatype mutation = Add string fl fl | Remove string

fun apply_mutation :: "metric \<Rightarrow> tool \<Rightarrow> mutation \<Rightarrow> tool" where
  "apply_mutation euclid t (Add nm la lo) = fst (add_business euclid t nm la lo)"
| "apply_mutation euclid t (Remove nm) = fst (remove_business euclid t nm)"

definition run :: "metric \<Rightarrow> tool \<Rightarrow> mutation list \<Rightarrow> tool" where
  "run euclid t ms = foldl (apply_mutation euclid) t ms"

section \<open>Notions used to state the properties\<close>

text \<open>
  The distance the scan gets for an area and a business, whether that call returns a finite
  number, and the number it returns (NaN standing for a call that raises).
\<close>

definition scan_dist :: "metric \<Rightarrow> sa_row \<Rightarrow> business \<Rightarrow> error + fl" where
  "scan_dist euclid r b = euclid (latitude r, longitude r) (lat b, lon b)"

definition finite_dist :: "metric \<Rightarrow> sa_row \<Rightarrow> business \<Rightarrow> bool" where
  "finite_dist euclid r b = (case scan_dist euclid r b of Inl err \<Rightarrow> False | Inr d \<Rightarrow> is_finite d)"

definition dist_of :: "metric \<Rightarrow> sa_row \<Rightarrow> business \<Rightarrow> fl" where
  "dist_of euclid r b = (case scan_dist euclid r b of Inl err \<Rightarrow> NaN | Inr d \<Rightarrow> d)"

text \<open>A mutation is finite for an area when the business it adds is at a finite distance.\<close>

fun finite_call :: "metric \<Rightarrow> sa_row \<Rightarrow> mutation \<Rightarrow> bool" where
  "finite_call euclid r (Add nm la lo) =
     finite_dist euclid r \<lparr>name = nm, lat = la, lon = lo, catchment = []\<rparr>"
| "finite_call euclid r (Remove nm) = True"

text \<open>
  An area is freshly assigned for a registry when the scan over that registry returns and
  the area stores the pair of distance and business name it computes.  \<open>assign_row\<close> is the
  row with the result of its scan stored.
\<close>

definition freshly_assigned :: "metric \<Rightarrow> business list \<Rightarrow> sa_row \<Rightarrow> bool" where
  "freshly_assigned euclid bs r =
     (nearest_loop euclid (latitude r, longitude r) bs (PInf, None) =
        Inr (distance_to_business r, assigned_business r))"

definition assign_row :: "metric \<Rightarrow> business list \<Rightarrow> sa_row \<Rightarrow> sa_row" where
  "assign_row euclid bs r =
     (case nearest_loop euclid (latitude r, longitude r) bs (PInf, None) of
        Inl err \<Rightarrow> r
      | Inr (min_dist, nearest_business) \<Rightarrow>
          r\<lparr>assigned_business := nearest_business, distance_to_business := min_dist\<rparr>)"

text \<open>
  A tool is covered by a dataset and a list of mutations when every area has the
  coordinates of a row of the dataset and every business the coordinates of an addition of
  the list.
\<close>

fun added :: "mutation list \<Rightarrow> (fl \<times> fl) list" where
  "added [] = []"
| "added (Add nm la lo # ms) = (la, lo) # added ms"
| "added (Remove nm # ms) = added ms"

definition covered :: "sa_row list \<Rightarrow> mutation list \<Rightarrow> tool \<Rightarrow> bool" where
  "covered rows ms t =
     (set (map (\<lambda>r. (latitude r, longitude r)) (sa_data t)) \<subseteq>
        set (map (\<lambda>r. (latitude r, longitude r)) rows) \<and>
      set (map (\<lambda>b. (lat b, lon b)) (businesses t)) \<subseteq> set (added ms))"


text \<open>The summary of no rows.\<close>

definition zero_row_summary :: summary where
  "zero_row_summary =
     \<lparr>s_total_population = Fin 0, s_num_areas = 0, s_avg_income = NaN, s_avg_age = NaN,
      s_avg_distance = NaN, s_max_distance = NaN\<rparr>"



section \<open>Example data\<close>

definition area_at :: "string \<Rightarrow> fl \<Rightarrow> fl \<Rightarrow> sa_row" where
  "area_at code x y =
     \<lparr>SA1 = code, latitude = x, longitude = y, postcode = ''3000'', suburb = ''Melbourne'',
      total_population = Fin 100, avg_income = Fin 55000, avg_age = Fin 35,
      assigned_business = None, distance_to_business = PInf, extra = (\<lambda>c. NaN)\<rparr>"


definition biz :: "string \<Rightarrow> fl \<Rightarrow> fl \<Rightarrow> business" where
  "biz nm x y = \<lparr>name = nm, lat = x, lon = y, catchment = []\<rparr>"

definition tool_tie :: tool where
  "tool_tie = \<lparr>sa_data = [area_at ''a'' (Fin 0) (Fin 0)], dtypes = [],
               businesses = [biz ''A'' (Fin 0) (Fin 1), biz ''B'' (Fin 1) (Fin 0)]\<rparr>"

definition tool_nan :: tool where
  "tool_nan = \<lparr>sa_data = [area_at ''a'' (Fin 0) (Fin 0)], dtypes = [],
               businesses = [biz ''A'' NaN (Fin 0)]\<rparr>"

definition mutations_ok :: "mutation list" where
  "mutations_ok = [Add ''A'' (Fin 0) (Fin 1), Add ''B'' (Fin 1) (Fin 0), Remove ''A'']"

definition tool_finite_then_nan :: tool where
  "tool_finite_then_nan = \<lparr>sa_data = [area_at ''a'' (Fin 0) (Fin 0)], dtypes = [],
                           businesses = [biz ''B'' (Fin 0) (Fin 1), biz ''A'' NaN (Fin 0)]\<rparr>"


definition mutations_nan :: "mutation list" where
  "mutations_nan = [Add ''A'' NaN (Fin 0)]"

definition tool0 :: tool where
  "tool0 = init [area_at ''a'' (Fin 0) (Fin 0)] []"

definition tool_three :: tool where
  "tool_three =
     \<lparr>sa_data = [area_at ''a'' (Fin 0) (Fin 0), area_at ''b'' (Fin 0) (Fin 1),
                 area_at ''c'' (Fin 0) (Fin 2)],
      dtypes = [], businesses = [biz ''A'' (Fin 0) (Fin 0)]\<rparr>"

definition tool_near :: tool where
  "tool_near = \<lparr>sa_data = [area_at ''a'' (Fin 0) (Fin 0)], dtypes = [],
                businesses = [biz ''A'' (Fin 0) (Fin 0)]\<rparr>"

definition tool_no_income :: tool where
  "tool_no_income =
     \<lparr>sa_data = [(area_at ''a'' (Fin 0) (Fin 0))\<lparr>avg_income := NaN\<rparr>], dtypes = [],
      businesses = []\<rparr>"





section \<open>Floating-point facts\<close>


lemma is_finite_iff: "is_finite x \<longleftrightarrow> (\<exists>a. x = Fin a)"
  by (cases x) simp_all

lemma flt_PInf_finite: "is_finite x \<Longrightarrow> flt x PInf"
  by (cases x) simp_all

lemma fle_finite: "fle (Fin a) (Fin b) \<longleftrightarrow> a \<le> b"
  by (auto simp: fle_def)

lemma max_float_ge: "2 ^ 64 \<le> max_float"
proof -
  have a: "(1::real) \<le> 2 - 1 / 2 ^ 52" by simp
  have b: "(2::real) ^ 64 \<le> 2 ^ 1023" by (rule power_increasing) simp_all
  have "(1::real) * 2 ^ 64 \<le> (2 - 1 / 2 ^ 52) * 2 ^ 1023"
    using a b by (rule mult_mono) simp_all
  then show ?thesis unfolding max_float_def by (simp only: mult_1)
qed

lemma to_float_small: "\<bar>x\<bar> \<le> 2 ^ 64 \<Longrightarrow> to_float x = Fin x"
proof -
  assume "\<bar>x\<bar> \<le> 2 ^ 64"
  with max_float_ge have "\<bar>x\<bar> \<le> max_float" by (rule order_trans[rotated])
  then have "\<not> max_float < x" "\<not> x < - max_float" by linarith+
  then show ?thesis unfolding to_float_def by (simp only: if_False)
qed

lemma sqrt_le_succ: "0 \<le> x \<Longrightarrow> sqrt x \<le> x + 1"
proof -
  assume x: "0 \<le> x"
  have "x \<le> (x + 1)\<^sup>2" using x by (simp add: power2_eq_square algebra_simps)
  then have "sqrt x \<le> sqrt ((x + 1)\<^sup>2)" by (rule real_sqrt_le_mono)
  also have "\<dots> = x + 1" using x by simp
  finally show ?thesis .
qed


lemma to_float_sqrt: "0 \<le> x \<Longrightarrow> x \<le> 2 ^ 60 \<Longrightarrow> to_float (sqrt x) = Fin (sqrt x)"
proof (rule to_float_small)
  assume x: "0 \<le> x" "x \<le> 2 ^ 60"
  have "sqrt x \<le> x + 1" using x(1) by (rule sqrt_le_succ)
  also have "\<dots> \<le> 2 ^ 64" using x(2) by simp
  finally show "\<bar>sqrt x\<bar> \<le> 2 ^ 64" using x(1) by simp
qed

lemma difference_small:
  "\<bar>a - b\<bar> \<le> 2 ^ 64 \<Longrightarrow> difference (Fin a) (Fin b) = Fin (a - b)"
  by (simp add: difference_def fsub_def to_float_small)

lemma difference_NaN [simp]: "difference NaN y = NaN" "difference x NaN = NaN"
  by (cases x; simp add: difference_def fsub_def)+

lemma square_le: "\<bar>x\<bar> \<le> 2 ^ 20 \<Longrightarrow> x * x \<le> (2::real) ^ 40"
proof -
  assume "\<bar>x\<bar> \<le> 2 ^ 20"
  then have "\<bar>x\<bar> * \<bar>x\<bar> \<le> 2 ^ 20 * 2 ^ 20" by (intro mult_mono) simp_all
  then show ?thesis by simp
qed

lemma scipy_euclidean_small:
  assumes "\<bar>a - c\<bar> \<le> 2 ^ 20" and "\<bar>b - d\<bar> \<le> 2 ^ 20"
  shows "scipy_euclidean (Fin a, Fin b) (Fin c, Fin d) =
           Inr (Fin (sqrt ((a - c) * (a - c) + (b - d) * (b - d))))"
proof -
  have d0: "difference (Fin a) (Fin c) = Fin (a - c)"
    using assms(1) by (intro difference_small) simp
  have d1: "difference (Fin b) (Fin d) = Fin (b - d)"
    using assms(2) by (intro difference_small) simp
  have nn: "0 \<le> (a - c) * (a - c) + (b - d) * (b - d)" by simp
  have "(a - c) * (a - c) + (b - d) * (b - d) \<le> 2 ^ 40 + 2 ^ 40"
    using square_le[OF assms(1)] square_le[OF assms(2)] by (rule add_mono)
  then have "(a - c) * (a - c) + (b - d) * (b - d) \<le> 2 ^ 60" by simp
  with nn have "to_float (sqrt ((a - c) * (a - c) + (b - d) * (b - d))) =
                Fin (sqrt ((a - c) * (a - c) + (b - d) * (b - d)))"
    by (rule to_float_sqrt)
  then show ?thesis by (simp add: scipy_euclidean_def d0 d1)
qed

lemma scipy_euclidean_NaN [simp]:
  "scipy_euclidean (x, y) (NaN, z) = Inl ValueError"
  "scipy_euclidean (NaN, y) (w, z) = Inl ValueError"
  by (simp_all add: scipy_euclidean_def split: fl.splits)

lemma example_dists:
  "scipy_euclidean (Fin 0, Fin 0) (Fin 0, Fin 1) = Inr (Fin 1)"
  "scipy_euclidean (Fin 0, Fin 0) (Fin 1, Fin 0) = Inr (Fin 1)"
  "scipy_euclidean (Fin 0, Fin 0) (Fin 0, Fin 0) = Inr (Fin 0)"
  using scipy_euclidean_small[of 0 0 0 1] scipy_euclidean_small[of 0 1 0 0]
    scipy_euclidean_small[of 0 0 0 0]
  by simp_all

section \<open>Nearest-facility assignment\<close>

lemma nearest_loop_snoc:
  "nearest_loop e c (bs @ [b]) acc =
     (case nearest_loop e c bs acc of
        Inl err \<Rightarrow> Inl err
      | Inr (md, nb) \<Rightarrow>
          (case e c (lat b, lon b) of
             Inl err \<Rightarrow> Inl err
           | Inr d \<Rightarrow> if flt d md then Inr (d, Some (name b)) else Inr (md, nb)))"
proof (induction bs arbitrary: acc)
  case Nil
  show ?case by (cases acc) (simp split: sum.splits)
next
  case (Cons a bs)
  show ?case by (cases acc) (simp add: Cons.IH split: sum.splits)
qed

lemma nearest_loop_first_min:
  assumes "bs \<noteq> []" and "\<forall>b\<in>set bs. e c (lat b, lon b) = Inr (d b) \<and> is_finite (d b)"
  shows "\<exists>i<length bs.
           nearest_loop e c bs (PInf, None) = Inr (d (bs ! i), Some (name (bs ! i))) \<and>
           (\<forall>j<length bs. fle (d (bs ! i)) (d (bs ! j))) \<and>
           (\<forall>j<i. flt (d (bs ! i)) (d (bs ! j)))"
  using assms
proof (induction bs rule: rev_induct)
  case Nil
  then show ?case by simp
next
  case (snoc b bs)
  have call_b: "e c (lat b, lon b) = Inr (d b)" and fin_b: "is_finite (d b)"
    and fin_bs: "\<forall>x\<in>set bs. e c (lat x, lon x) = Inr (d x) \<and> is_finite (d x)"
    using snoc.prems by auto
  obtain db where db: "d b = Fin db" using fin_b by (auto simp: is_finite_iff)
  show ?case
  proof (cases "bs = []")
    case True
    then show ?thesis using fin_b call_b
      by (simp add: flt_PInf_finite fle_def is_finite_iff) auto
  next
    case False
    from snoc.IH[OF False fin_bs] obtain i where i: "i < length bs"
      and res: "nearest_loop e c bs (PInf, None) = Inr (d (bs ! i), Some (name (bs ! i)))"
      and mn: "\<forall>j<length bs. fle (d (bs ! i)) (d (bs ! j))"
      and fst: "\<forall>j<i. flt (d (bs ! i)) (d (bs ! j))"
      by auto
    have dj: "\<forall>j<length bs. \<exists>x. d (bs ! j) = Fin x"
      using fin_bs by (simp add: is_finite_iff)
    from dj i obtain di where di: "d (bs ! i) = Fin di" by auto
    have step: "nearest_loop e c (bs @ [b]) (PInf, None) =
        (if flt (d b) (d (bs ! i)) then Inr (d b, Some (name b))
         else Inr (d (bs ! i), Some (name (bs ! i))))"
      by (simp add: nearest_loop_snoc res call_b)
    show ?thesis
    proof (cases "flt (d b) (d (bs ! i))")
      case True
      have lt: "\<forall>j<length bs. flt (d b) (d (bs ! j))"
      proof (intro allI impI)
        fix j assume j: "j < length bs"
        from dj j obtain x where x: "d (bs ! j) = Fin x" by auto
        from mn j have "fle (d (bs ! i)) (d (bs ! j))" by simp
        with True show "flt (d b) (d (bs ! j))" by (simp add: db di x fle_finite)
      qed
      have "nearest_loop e c (bs @ [b]) (PInf, None) =
              Inr (d ((bs @ [b]) ! length bs), Some (name ((bs @ [b]) ! length bs))) \<and>
           (\<forall>j<length (bs @ [b]). fle (d ((bs @ [b]) ! length bs)) (d ((bs @ [b]) ! j))) \<and>
           (\<forall>j<length bs. flt (d ((bs @ [b]) ! length bs)) (d ((bs @ [b]) ! j)))"
        using True lt by (auto simp: step nth_append fle_def db less_Suc_eq)
      then show ?thesis by (intro exI[of _ "length bs"]) simp
    next
      case False
      then have le: "fle (d (bs ! i)) (d b)" by (simp add: db di fle_finite)
      have "nearest_loop e c (bs @ [b]) (PInf, None) =
              Inr (d ((bs @ [b]) ! i), Some (name ((bs @ [b]) ! i))) \<and>
           (\<forall>j<length (bs @ [b]). fle (d ((bs @ [b]) ! i)) (d ((bs @ [b]) ! j))) \<and>
           (\<forall>j<i. flt (d ((bs @ [b]) ! i)) (d ((bs @ [b]) ! j)))"
        using False i mn fst le by (auto simp: step nth_append less_Suc_eq)
      then show ?thesis using i by (intro exI[of _ i]) simp
    qed
  qed
qed

lemma nearest_loop_returns:
  "\<forall>b\<in>set bs. \<not> isl (e c (lat b, lon b)) \<Longrightarrow> \<not> isl (nearest_loop e c bs acc)"
proof (induction bs arbitrary: acc)
  case Nil
  show ?case by simp
next
  case (Cons b bs)
  then show ?case by (cases acc) (auto split: sum.splits)
qed

lemma nearest_loop_raises:
  "\<exists>b\<in>set bs. isl (e c (lat b, lon b)) \<Longrightarrow> isl (nearest_loop e c bs acc)"
proof (induction bs arbitrary: acc)
  case Nil
  then show ?case by simp
next
  case (Cons b bs)
  then show ?case by (cases acc) (auto split: sum.splits)
qed

lemma assign_row_fields [simp]:
  "latitude (assign_row e bs r) = latitude r" "longitude (assign_row e bs r) = longitude r"
  by (simp_all add: assign_row_def split: sum.splits prod.splits)

lemma reset_row_fields [simp]:
  "latitude (reset_row r) = latitude r" "longitude (reset_row r) = longitude r"
  "assigned_business (reset_row r) = None" "distance_to_business (reset_row r) = PInf"
  by (simp_all add: reset_row_def)

lemma assign_row_reset:
  "\<not> isl (nearest_loop e (latitude r, longitude r) bs (PInf, None)) \<Longrightarrow>
   assign_row e bs (reset_row r) = assign_row e bs r"
  by (auto simp: assign_row_def reset_row_def split: sum.splits)

lemma assign_rows_returns:
  "\<forall>r\<in>set rs. \<not> isl (nearest_loop e (latitude r, longitude r) bs (PInf, None)) \<Longrightarrow>
   assign_rows e bs rs = (map (assign_row e bs) rs, None)"
proof (induction rs)
  case Nil
  show ?case by simp
next
  case (Cons r rs)
  then show ?case by (auto simp: assign_row_def split: sum.splits)
qed

lemma assign_rows_raises:
  "\<exists>r\<in>set rs. isl (nearest_loop e (latitude r, longitude r) bs (PInf, None)) \<Longrightarrow>
   snd (assign_rows e bs rs) \<noteq> None"
proof (induction rs)
  case Nil
  then show ?case by simp
next
  case (Cons r rs)
  show ?case
  proof (cases "nearest_loop e (latitude r, longitude r) bs (PInf, None)")
    case (Inl err)
    then show ?thesis by simp
  next
    case (Inr res)
    with Cons.prems have "\<exists>r\<in>set rs. isl (nearest_loop e (latitude r, longitude r) bs (PInf, None))"
      by auto
    from Cons.IH[OF this] Inr show ?thesis by (auto split: prod.splits)
  qed
qed

lemma scan_dist_returns: "finite_dist e r b \<Longrightarrow> \<not> isl (scan_dist e r b)"
  by (auto simp: finite_dist_def split: sum.splits)

lemma recalculate_returns:
  assumes "\<forall>r\<in>set (sa_data t). \<forall>b\<in>set (businesses t). \<not> isl (scan_dist e r b)"
  shows "snd (recalculate_catchments e t) = None"
    and "sa_data (fst (recalculate_catchments e t)) = map (assign_row e (businesses t)) (sa_data t)"
    and "businesses (fst (recalculate_catchments e t)) =
           map (update_catchment (sa_data (fst (recalculate_catchments e t)))) (businesses t)"
    and "dtypes (fst (recalculate_catchments e t)) = dtypes t"
proof -
  have ok: "\<forall>r\<in>set (sa_data t). \<not> isl (nearest_loop e (latitude r, longitude r) (businesses t) (PInf, None))"
    using assms by (auto simp: scan_dist_def intro!: nearest_loop_returns)
  then have ok': "\<forall>r\<in>set (map reset_row (sa_data t)).
      \<not> isl (nearest_loop e (latitude r, longitude r) (businesses t) (PInf, None))"
    by simp
  have rows: "assign_rows e (businesses t) (map reset_row (sa_data t)) =
                (map (assign_row e (businesses t)) (sa_data t), None)"
    using assign_rows_returns[OF ok'] ok by (simp add: assign_row_reset cong: map_cong)
  have nil: "businesses t = [] \<Longrightarrow> map reset_row (sa_data t) = map (assign_row e []) (sa_data t)"
    by (simp add: assign_row_def reset_row_def)
  show "snd (recalculate_catchments e t) = None"
    by (simp add: recalculate_catchments_def rows)
  show "sa_data (fst (recalculate_catchments e t)) = map (assign_row e (businesses t)) (sa_data t)"
    using nil by (simp add: recalculate_catchments_def rows)
  show "businesses (fst (recalculate_catchments e t)) =
           map (update_catchment (sa_data (fst (recalculate_catchments e t)))) (businesses t)"
    by (simp add: recalculate_catchments_def rows)
  show "dtypes (fst (recalculate_catchments e t)) = dtypes t"
    by (simp add: recalculate_catchments_def rows)
qed

lemma dist_of_assign_row [simp]: "dist_of e (assign_row e' bs r) b = dist_of e r b"
  by (simp add: dist_of_def scan_dist_def)

lemma tool_tie_recalculate:
  "snd (recalculate_catchments scipy_euclidean tool_tie) = None"
  "map assigned_business (sa_data (fst (recalculate_catchments scipy_euclidean tool_tie))) = [Some ''A'']"
  "map distance_to_business (sa_data (fst (recalculate_catchments scipy_euclidean tool_tie))) = [Fin 1]"
  by (simp_all add: recalculate_catchments_def tool_tie_def area_at_def biz_def reset_row_def
      example_dists)

text \<open>
  C1 (nearest-correctness).  Take a non-empty registry in which the distance call returns a
  finite number for every area and every business.  Then the recomputation returns, and
  every area is assigned a business whose distance is stored with the area and is less than
  or equal to the distance to every business of the registry; every business earlier in
  registry order is strictly farther, so among businesses at exactly the same distance the
  earliest inserted one is assigned.
\<close>

theorem nearest_correctness:
  assumes "businesses t \<noteq> []"
    and "\<forall>r\<in>set (sa_data t). \<forall>b\<in>set (businesses t). finite_dist e r b"
    and "r \<in> set (sa_data (fst (recalculate_catchments e t)))"
  shows "snd (recalculate_catchments e t) = None \<and>
         (\<exists>i<length (businesses t).
            assigned_business r = Some (name (businesses t ! i)) \<and>
            distance_to_business r = dist_of e r (businesses t ! i) \<and>
            (\<forall>j<length (businesses t). fle (distance_to_business r) (dist_of e r (businesses t ! j))) \<and>
            (\<forall>j<i. flt (distance_to_business r) (dist_of e r (businesses t ! j))))"
proof -
  have ret: "\<forall>r\<in>set (sa_data t). \<forall>b\<in>set (businesses t). \<not> isl (scan_dist e r b)"
    using assms(2) by (simp add: scan_dist_returns)
  note rec = recalculate_returns[OF ret]
  from assms(3) obtain r0 where r0: "r0 \<in> set (sa_data t)" and r: "r = assign_row e (businesses t) r0"
    by (auto simp: rec(2))
  have fin: "\<forall>b\<in>set (businesses t).
      e (latitude r0, longitude r0) (lat b, lon b) = Inr (dist_of e r0 b) \<and> is_finite (dist_of e r0 b)"
    using assms(2) r0 by (auto simp: finite_dist_def dist_of_def scan_dist_def split: sum.splits)
  from nearest_loop_first_min[of "businesses t" e "(latitude r0, longitude r0)" "dist_of e r0",
      OF assms(1) fin] obtain i where i: "i < length (businesses t)"
    and res: "nearest_loop e (latitude r0, longitude r0) (businesses t) (PInf, None) =
                Inr (dist_of e r0 (businesses t ! i), Some (name (businesses t ! i)))"
    and mn: "\<forall>j<length (businesses t). fle (dist_of e r0 (businesses t ! i)) (dist_of e r0 (businesses t ! j))"
    and fst: "\<forall>j<i. flt (dist_of e r0 (businesses t ! i)) (dist_of e r0 (businesses t ! j))"
    by blast
  have a: "assigned_business r = Some (name (businesses t ! i))"
    and d: "distance_to_business r = dist_of e r0 (businesses t ! i)"
    using res by (simp_all add: r assign_row_def)
  have "\<exists>i<length (businesses t).
            assigned_business r = Some (name (businesses t ! i)) \<and>
            distance_to_business r = dist_of e r (businesses t ! i) \<and>
            (\<forall>j<length (businesses t). fle (distance_to_business r) (dist_of e r (businesses t ! j))) \<and>
            (\<forall>j<i. flt (distance_to_business r) (dist_of e r (businesses t ! j)))"
    using i a d mn fst by (intro exI[of _ i]) (simp add: r)
  with rec(1) show ?thesis by simp
qed

theorem nearest_correctness_witness:
  "businesses tool_tie \<noteq> [] \<and>
   finite_dist scipy_euclidean (area_at ''a'' (Fin 0) (Fin 0)) (biz ''A'' (Fin 0) (Fin 1)) \<and>
   finite_dist scipy_euclidean (area_at ''a'' (Fin 0) (Fin 0)) (biz ''B'' (Fin 1) (Fin 0)) \<and>
   snd (recalculate_catchments scipy_euclidean tool_tie) = None \<and>
   assigned_business (hd (sa_data (fst (recalculate_catchments scipy_euclidean tool_tie)))) = Some ''A'' \<and>
   distance_to_business (hd (sa_data (fst (recalculate_catchments scipy_euclidean tool_tie)))) = Fin 1 \<and>
   (\<exists>i<length (businesses tool_tie).
      assigned_business (hd (sa_data (fst (recalculate_catchments scipy_euclidean tool_tie)))) =
        Some (name (businesses tool_tie ! i)) \<and>
      (\<forall>j<i. flt (distance_to_business (hd (sa_data (fst (recalculate_catchments scipy_euclidean tool_tie)))))
                 (dist_of scipy_euclidean
                    (hd (sa_data (fst (recalculate_catchments scipy_euclidean tool_tie))))
                    (businesses tool_tie ! j))))"
proof -
  let ?t = "fst (recalculate_catchments scipy_euclidean tool_tie)"
  have h1: "businesses tool_tie \<noteq> []" by (simp add: tool_tie_def)
  have f: "finite_dist scipy_euclidean (area_at ''a'' (Fin 0) (Fin 0)) (biz ''A'' (Fin 0) (Fin 1))"
    "finite_dist scipy_euclidean (area_at ''a'' (Fin 0) (Fin 0)) (biz ''B'' (Fin 1) (Fin 0))"
    by (simp_all add: finite_dist_def scan_dist_def area_at_def biz_def example_dists)
  then have h2: "\<forall>r\<in>set (sa_data tool_tie). \<forall>b\<in>set (businesses tool_tie). finite_dist scipy_euclidean r b"
    by (simp add: tool_tie_def)
  have v: "assigned_business (hd (sa_data ?t)) = Some ''A''" "distance_to_business (hd (sa_data ?t)) = Fin 1"
    using tool_tie_recalculate(2,3) by (cases "sa_data ?t"; simp)+
  have h3: "hd (sa_data ?t) \<in> set (sa_data ?t)"
    using tool_tie_recalculate(2) by (cases "sa_data ?t") simp_all
  from nearest_correctness[OF h1 h2 h3] h1 f v show ?thesis by blast
qed

text \<open>
  For a business with a NaN coordinate the distance call raises \<open>ValueError\<close>.  The
  recomputation stops there, and the area keeps the reset values, unassigned at distance
  \<open>inf\<close>: so it is with that business alone in the registry, and so it is when a business
  at a finite distance comes before it.
\<close>

theorem nearest_correctness_counterexample:
  "businesses tool_nan \<noteq> [] \<and>
   snd (recalculate_catchments scipy_euclidean tool_nan) = Some ValueError \<and>
   map assigned_business (sa_data (fst (recalculate_catchments scipy_euclidean tool_nan))) = [None] \<and>
   map distance_to_business (sa_data (fst (recalculate_catchments scipy_euclidean tool_nan))) = [PInf] \<and>
   map name (businesses tool_finite_then_nan) = [''B'', ''A''] \<and>
   snd (recalculate_catchments scipy_euclidean tool_finite_then_nan) = Some ValueError \<and>
   map assigned_business (sa_data (fst (recalculate_catchments scipy_euclidean tool_finite_then_nan))) = [None]"
  by (simp add: recalculate_catchments_def tool_nan_def tool_finite_then_nan_def area_at_def biz_def
      reset_row_def example_dists)

section \<open>Coverage after mutation sequences\<close>

lemma update_catchment_fields [simp]:
  "name (update_catchment rows b) = name b"
  "lat (update_catchment rows b) = lat b"
  "lon (update_catchment rows b) = lon b"
  by (simp_all add: update_catchment_def)

lemma nearest_loop_update_catchment:
  "nearest_loop e c (map (update_catchment rows) bs) acc = nearest_loop e c bs acc"
proof (induction bs arbitrary: acc)
  case Nil
  show ?case by simp
next
  case (Cons b bs)
  show ?case by (cases acc) (simp add: Cons.IH split: sum.splits)
qed

lemma assign_rows_coords:
  "map (\<lambda>r. (latitude r, longitude r)) (fst (assign_rows e bs rs)) =
     map (\<lambda>r. (latitude r, longitude r)) rs"
  by (induction rs) (auto split: sum.splits prod.splits)

lemma recalculate_coords:
  "map (\<lambda>r. (latitude r, longitude r)) (sa_data (fst (recalculate_catchments e t))) =
     map (\<lambda>r. (latitude r, longitude r)) (sa_data t)"
proof -
  have "map (\<lambda>r. (latitude r, longitude r)) (fst (assign_rows e (businesses t) (map reset_row (sa_data t)))) =
        map (\<lambda>r. (latitude r, longitude r)) (sa_data t)"
    by (simp add: assign_rows_coords comp_def)
  then show ?thesis
    by (auto simp: recalculate_catchments_def comp_def split: prod.splits option.splits)
qed

lemma recalculate_places:
  "map (\<lambda>b. (name b, lat b, lon b)) (businesses (fst (recalculate_catchments e t))) =
     map (\<lambda>b. (name b, lat b, lon b)) (businesses t)"
  by (auto simp: recalculate_catchments_def comp_def split: prod.splits option.splits)

lemma add_business_fst:
  "fst (add_business e t nm la lo) =
     fst (recalculate_catchments e
            (t\<lparr>businesses := businesses t @ [\<lparr>name = nm, lat = la, lon = lo, catchment = []\<rparr>]\<rparr>))"
  by (simp add: add_business_def Let_def split: prod.splits option.splits)

lemma add_business_snd:
  "snd (add_business e t nm la lo) =
     (case snd (recalculate_catchments e
                  (t\<lparr>businesses := businesses t @ [\<lparr>name = nm, lat = la, lon = lo, catchment = []\<rparr>]\<rparr>)) of
        Some err \<Rightarrow> Inl err
      | None \<Rightarrow> Inr (last (businesses (fst (add_business e t nm la lo)))))"
  by (simp add: add_business_def Let_def split: prod.splits option.splits)

lemma run_snoc: "run e t (ms @ [m]) = apply_mutation e (run e t ms) m"
  by (simp add: run_def)

lemma added_append: "added (ms @ ms') = added ms @ added ms'"
  by (induction ms rule: added.induct) simp_all

lemma added_finite:
  "(la, lo) \<in> set (added ms) \<Longrightarrow> \<forall>m\<in>set ms. finite_call e r m \<Longrightarrow>
   finite_dist e r \<lparr>name = nm, lat = la, lon = lo, catchment = []\<rparr>"
proof (induction ms rule: added.induct)
  case 1
  then show ?case by simp
next
  case (2 nm' la' lo' ms)
  then show ?case by (auto simp: finite_dist_def scan_dist_def)
next
  case (3 nm' ms)
  then show ?case by simp
qed

lemma finite_dist_cong:
  "latitude r = latitude r0 \<Longrightarrow> longitude r = longitude r0 \<Longrightarrow> lat b = lat b0 \<Longrightarrow> lon b = lon b0 \<Longrightarrow>
   finite_dist e r b = finite_dist e r0 b0"
  by (simp add: finite_dist_def scan_dist_def)

lemma covered_finite:
  assumes "\<forall>r\<in>set rows. \<forall>m\<in>set ms. finite_call e r m" and "covered rows ms t"
  shows "\<forall>r\<in>set (sa_data t). \<forall>b\<in>set (businesses t). finite_dist e r b"
proof (intro ballI)
  fix r b assume r: "r \<in> set (sa_data t)" and b: "b \<in> set (businesses t)"
  from r have "(latitude r, longitude r) \<in> set (map (\<lambda>r. (latitude r, longitude r)) (sa_data t))"
    by simp
  with assms(2) have "(latitude r, longitude r) \<in> set (map (\<lambda>r. (latitude r, longitude r)) rows)"
    unfolding covered_def by blast
  then obtain r0 where r0: "r0 \<in> set rows" "latitude r = latitude r0" "longitude r = longitude r0"
    by auto
  from b have "(lat b, lon b) \<in> set (map (\<lambda>b. (lat b, lon b)) (businesses t))" by simp
  with assms(2) have "(lat b, lon b) \<in> set (added ms)" unfolding covered_def by blast
  with assms(1) r0(1) have f: "finite_dist e r0 \<lparr>name = name b, lat = lat b, lon = lon b, catchment = []\<rparr>"
    using added_finite by blast
  have "finite_dist e r b = finite_dist e r0 \<lparr>name = name b, lat = lat b, lon = lon b, catchment = []\<rparr>"
    by (rule finite_dist_cong) (simp_all add: r0)
  with f show "finite_dist e r b" by simp
qed

lemma covered_init: "covered (sa_data (init rows dts)) ms (init rows dts)"
proof -
  have "businesses (init rows dts) = []" by (simp add: init_def)
  then show ?thesis by (simp add: covered_def)
qed

lemma recalculate_positions:
  "map (\<lambda>b. (lat b, lon b)) (businesses (fst (recalculate_catchments e t))) =
     map (\<lambda>b. (lat b, lon b)) (businesses t)"
  by (auto simp: recalculate_catchments_def comp_def split: prod.splits option.splits)

lemma covered_recalculate:
  "covered rows ms t \<Longrightarrow> covered rows ms (fst (recalculate_catchments e t))"
  unfolding covered_def by (simp only: recalculate_coords recalculate_positions)

lemma covered_apply:
  assumes "covered rows ms t" and "m \<in> set ms"
  shows "covered rows ms (apply_mutation e t m)"
proof (cases m)
  case (Add nm la lo)
  have "(la, lo) \<in> set (added ms)"
    using assms(2) unfolding Add by (induction ms rule: added.induct) auto
  with assms(1) have "covered rows ms
      (t\<lparr>businesses := businesses t @ [\<lparr>name = nm, lat = la, lon = lo, catchment = []\<rparr>]\<rparr>)"
    by (simp add: covered_def)
  then show ?thesis unfolding Add by (simp add: add_business_fst covered_recalculate)
next
  case (Remove nm)
  from assms(1) have "covered rows ms (t\<lparr>businesses := filter (\<lambda>b. name b \<noteq> nm) (businesses t)\<rparr>)"
    by (auto simp: covered_def)
  then show ?thesis unfolding Remove by (simp add: remove_business_def covered_recalculate)
qed

lemma covered_run:
  "set ms' \<subseteq> set ms \<Longrightarrow> covered (sa_data (init rows dts)) ms (run e (init rows dts) ms')"
proof (induction ms' rule: rev_induct)
  case Nil
  show ?case by (simp add: run_def covered_init)
next
  case (snoc m ms')
  then show ?case by (simp add: run_snoc covered_apply)
qed

lemma assign_row_fresh:
  "\<not> isl (nearest_loop e (latitude r, longitude r) bs (PInf, None)) \<Longrightarrow>
   freshly_assigned e bs (assign_row e bs r)"
  by (auto simp: freshly_assigned_def assign_row_def split: sum.splits)

lemma recalculate_fresh:
  assumes "\<forall>r\<in>set (sa_data t). \<forall>b\<in>set (businesses t). finite_dist e r b"
    and "r \<in> set (sa_data (fst (recalculate_catchments e t)))"
  shows "freshly_assigned e (businesses (fst (recalculate_catchments e t))) r"
proof -
  have ret: "\<forall>r\<in>set (sa_data t). \<forall>b\<in>set (businesses t). \<not> isl (scan_dist e r b)"
    using assms(1) by (simp add: scan_dist_returns)
  note rec = recalculate_returns[OF ret]
  from assms(2) obtain r0 where r0: "r0 \<in> set (sa_data t)" and r: "r = assign_row e (businesses t) r0"
    by (auto simp: rec(2))
  have "\<not> isl (nearest_loop e (latitude r0, longitude r0) (businesses t) (PInf, None))"
    using ret r0 by (auto simp: scan_dist_def intro!: nearest_loop_returns)
  then have "freshly_assigned e (businesses t) r" unfolding r by (rule assign_row_fresh)
  then show ?thesis
    unfolding freshly_assigned_def rec(3) by (simp only: nearest_loop_update_catchment)
qed

lemma apply_mutation_pre:
  assumes "covered rows ms t" and "m \<in> set ms"
  shows "\<exists>t'. apply_mutation e t m = fst (recalculate_catchments e t') \<and> covered rows ms t'"
proof (cases m)
  case (Add nm la lo)
  have "(la, lo) \<in> set (added ms)"
    using assms(2) unfolding Add by (induction ms rule: added.induct) auto
  with assms(1) have "covered rows ms
      (t\<lparr>businesses := businesses t @ [\<lparr>name = nm, lat = la, lon = lo, catchment = []\<rparr>]\<rparr>)"
    by (simp add: covered_def)
  then show ?thesis unfolding Add by (auto simp: add_business_fst)
next
  case (Remove nm)
  from assms(1) have "covered rows ms (t\<lparr>businesses := filter (\<lambda>b. name b \<noteq> nm) (businesses t)\<rparr>)"
    by (auto simp: covered_def)
  then show ?thesis unfolding Remove by (auto simp: remove_business_def)
qed

lemma run_fresh:
  assumes "\<forall>r\<in>set (sa_data (init rows dts)). \<forall>m\<in>set ms. finite_call e r m"
    and "r \<in> set (sa_data (run e (init rows dts) ms))"
  shows "freshly_assigned e (businesses (run e (init rows dts) ms)) r"
proof (cases ms rule: rev_cases)
  case Nil
  with assms(2) show ?thesis by (auto simp: run_def init_def freshly_assigned_def)
next
  case (snoc ms' m)
  have cov: "covered (sa_data (init rows dts)) ms (run e (init rows dts) ms')"
    by (rule covered_run) (auto simp: snoc)
  have m: "m \<in> set ms" by (simp add: snoc)
  from apply_mutation_pre[OF cov m, of e] obtain t' where
    t': "run e (init rows dts) ms = fst (recalculate_catchments e t')"
      "covered (sa_data (init rows dts)) ms t'"
    by (auto simp: snoc run_snoc)
  from covered_finite[OF assms(1) t'(2)] assms(2) show ?thesis
    unfolding t'(1) by (rule recalculate_fresh)
qed

lemma run_ok_value:
  "map assigned_business (sa_data (run scipy_euclidean (init [area_at ''a'' (Fin 0) (Fin 0)] []) mutations_ok)) = [Some ''B'']"
  "map distance_to_business (sa_data (run scipy_euclidean (init [area_at ''a'' (Fin 0) (Fin 0)] []) mutations_ok)) = [Fin 1]"
  "map name (businesses (run scipy_euclidean (init [area_at ''a'' (Fin 0) (Fin 0)] []) mutations_ok)) = [''B'']"
  by (simp_all add: run_def mutations_ok_def add_business_fst remove_business_def
      recalculate_catchments_def init_def area_at_def reset_row_def update_catchment_def
      example_dists)

text \<open>
  C2 (total coverage).  Start from the constructor and apply any sequence of additions and
  removals such that, for every area the constructor keeps and every added business, the
  distance call returns a finite number.  Then every area is unassigned at distance \<open>inf\<close> if and
  only if the registry is empty, is assigned whenever the registry is non-empty, and in both
  cases stores exactly what the scan over the current registry computes: no assignment
  survives from an earlier registry.
\<close>

theorem total_coverage:
  assumes "\<forall>r\<in>set (sa_data (init rows dts)). \<forall>m\<in>set ms. finite_call e r m"
    and "r \<in> set (sa_data (run e (init rows dts) ms))"
  shows "((assigned_business r = None \<and> distance_to_business r = PInf) \<longleftrightarrow>
            businesses (run e (init rows dts) ms) = []) \<and>
         (assigned_business r = None \<longleftrightarrow> businesses (run e (init rows dts) ms) = []) \<and>
         freshly_assigned e (businesses (run e (init rows dts) ms)) r"
proof -
  let ?t = "run e (init rows dts) ms"
  have fresh: "freshly_assigned e (businesses ?t) r" using assms by (rule run_fresh)
  have "covered (sa_data (init rows dts)) ms ?t" by (rule covered_run) simp
  from covered_finite[OF assms(1) this] assms(2)
  have fin: "\<forall>b\<in>set (businesses ?t).
      e (latitude r, longitude r) (lat b, lon b) = Inr (dist_of e r b) \<and> is_finite (dist_of e r b)"
    by (auto simp: finite_dist_def dist_of_def scan_dist_def split: sum.splits)
  show ?thesis
  proof (cases "businesses ?t = []")
    case True
    with fresh show ?thesis by (simp add: freshly_assigned_def)
  next
    case False
    from nearest_loop_first_min[of "businesses ?t" e "(latitude r, longitude r)" "dist_of e r",
        OF False fin]
    obtain nm d where "nearest_loop e (latitude r, longitude r) (businesses ?t) (PInf, None) = Inr (d, Some nm)"
      by blast
    with fresh have "assigned_business r = Some nm" by (simp add: freshly_assigned_def)
    with False fresh show ?thesis by simp
  qed
qed

theorem total_coverage_witness:
  "list_all (finite_call scipy_euclidean (area_at ''a'' (Fin 0) (Fin 0))) mutations_ok \<and>
   businesses (run scipy_euclidean (init [area_at ''a'' (Fin 0) (Fin 0)] []) mutations_ok) \<noteq> [] \<and>
   assigned_business (hd (sa_data (run scipy_euclidean (init [area_at ''a'' (Fin 0) (Fin 0)] []) mutations_ok))) =
     Some ''B'' \<and>
   freshly_assigned scipy_euclidean
     (businesses (run scipy_euclidean (init [area_at ''a'' (Fin 0) (Fin 0)] []) mutations_ok))
     (hd (sa_data (run scipy_euclidean (init [area_at ''a'' (Fin 0) (Fin 0)] []) mutations_ok)))"
proof -
  let ?rows = "[area_at ''a'' (Fin 0) (Fin 0)]"
  let ?t = "run scipy_euclidean (init ?rows []) mutations_ok"
  have f: "list_all (finite_call scipy_euclidean (area_at ''a'' (Fin 0) (Fin 0))) mutations_ok"
    by (simp add: mutations_ok_def finite_dist_def scan_dist_def area_at_def example_dists)
  have "finite_call scipy_euclidean (reset_row (area_at ''a'' (Fin 0) (Fin 0))) m =
        finite_call scipy_euclidean (area_at ''a'' (Fin 0) (Fin 0)) m" for m
    by (cases m) (simp_all add: finite_dist_def scan_dist_def)
  with f have h1: "\<forall>r\<in>set (sa_data (init ?rows [])). \<forall>m\<in>set mutations_ok. finite_call scipy_euclidean r m"
    by (simp add: list_all_iff init_def area_at_def reset_row_def)
  have v: "map assigned_business (sa_data ?t) = [Some ''B'']" by (rule run_ok_value)
  then have h2: "hd (sa_data ?t) \<in> set (sa_data ?t)" by (cases "sa_data ?t") auto
  have a: "assigned_business (hd (sa_data ?t)) = Some ''B''" using v by (cases "sa_data ?t") auto
  from total_coverage[OF h1 h2] a f show ?thesis by auto
qed

text \<open>
  Adding a business with a NaN coordinate raises \<open>ValueError\<close> after the business has been
  appended: the registry is non-empty and the area is unassigned at distance \<open>inf\<close>.
\<close>

theorem total_coverage_counterexample:
  "snd (add_business scipy_euclidean (init [area_at ''a'' (Fin 0) (Fin 0)] []) ''A'' NaN (Fin 0)) =
     Inl ValueError \<and>
   businesses (run scipy_euclidean (init [area_at ''a'' (Fin 0) (Fin 0)] []) mutations_nan) \<noteq> [] \<and>
   map assigned_business (sa_data (run scipy_euclidean (init [area_at ''a'' (Fin 0) (Fin 0)] []) mutations_nan)) = [None] \<and>
   map distance_to_business (sa_data (run scipy_euclidean (init [area_at ''a'' (Fin 0) (Fin 0)] []) mutations_nan)) = [PInf]"
  by (simp add: run_def mutations_nan_def add_business_fst add_business_snd
      recalculate_catchments_def init_def area_at_def reset_row_def)

section \<open>Adding a business\<close>

lemma recalculate_raises:
  assumes "\<exists>r\<in>set (sa_data t). \<exists>b\<in>set (businesses t). isl (scan_dist e r b)"
  shows "snd (recalculate_catchments e t) \<noteq> None"
proof -
  from assms obtain r b where r: "r \<in> set (sa_data t)" and b: "b \<in> set (businesses t)"
    and raised: "isl (scan_dist e r b)" by blast
  from b have ne: "businesses t \<noteq> []" by auto
  have "isl (nearest_loop e (latitude (reset_row r), longitude (reset_row r)) (businesses t) (PInf, None))"
    using b raised by (auto simp: scan_dist_def intro!: nearest_loop_raises)
  with r have "\<exists>r\<in>set (map reset_row (sa_data t)).
      isl (nearest_loop e (latitude r, longitude r) (businesses t) (PInf, None))"
    by auto
  from assign_rows_raises[OF this] ne show ?thesis
    by (auto simp: recalculate_catchments_def split: prod.splits option.splits)
qed

lemma businesses_add_business:
  "map (\<lambda>b. (name b, lat b, lon b)) (businesses (fst (add_business e t nm la lo))) =
     map (\<lambda>b. (name b, lat b, lon b)) (businesses t) @ [(nm, la, lo)]"
  by (simp add: add_business_fst recalculate_places)

lemma far_dist:
  "scipy_euclidean (Fin 0, Fin 0) (Fin 100, Fin 200) = Inr (Fin (sqrt 50000))"
  using scipy_euclidean_small[of 0 100 0 200] by simp

lemma tool0_rows: "sa_data tool0 = [area_at ''a'' (Fin 0) (Fin 0)]" "businesses tool0 = []"
  by (simp_all add: tool0_def init_def area_at_def)

lemma add_far_value:
  "fst (add_business_button scipy_euclidean tool0 ''A'' (Fin 100) (Fin 200)) =
     fst (add_business scipy_euclidean tool0 ''A'' (Fin 100) (Fin 200))"
  "snd (add_business_button scipy_euclidean tool0 ''A'' (Fin 100) (Fin 200)) = Success ''Added A!''"
  "map name (businesses (fst (add_business scipy_euclidean tool0 ''A'' (Fin 100) (Fin 200)))) = [''A'']"
  "map assigned_business (sa_data (fst (add_business scipy_euclidean tool0 ''A'' (Fin 100) (Fin 200)))) =
     [Some ''A'']"
  "map distance_to_business (sa_data (fst (add_business scipy_euclidean tool0 ''A'' (Fin 100) (Fin 200)))) =
     [Fin (sqrt 50000)]"
  by (simp_all add: add_business_button_def add_business_def Let_def recalculate_catchments_def
      tool0_rows area_at_def reset_row_def far_dist)

text \<open>
  C3 (validation on add).  The handler of the Add Business button rejects an empty name: it
  reports an error and returns the tool unchanged.  \<open>add_business\<close> itself checks nothing:
  for every name, latitude and longitude it appends the business at the end of the registry
  and runs the recomputation.  When no distance call raises, the call returns and every
  area holds the result of its scan over the new registry; when a distance call raises, so
  does \<open>add_business\<close>, the business staying appended.  For a non-empty name the handler
  leaves the tool as \<open>add_business\<close> leaves it and shows the success message exactly when
  that call returns.
\<close>

theorem add_business_no_validation:
  "add_business_button e t [] la lo = (t, Error ''Please enter a business name'') \<and>
   map (\<lambda>b. (name b, lat b, lon b)) (businesses (fst (add_business e t nm la lo))) =
     map (\<lambda>b. (name b, lat b, lon b)) (businesses t) @ [(nm, la, lo)] \<and>
   ((\<forall>r\<in>set (sa_data t).
       \<forall>b\<in>set (businesses t @ [\<lparr>name = nm, lat = la, lon = lo, catchment = []\<rparr>]).
         \<not> isl (scan_dist e r b)) \<longrightarrow>
      \<not> isl (snd (add_business e t nm la lo)) \<and>
      sa_data (fst (add_business e t nm la lo)) =
        map (assign_row e (businesses t @ [\<lparr>name = nm, lat = la, lon = lo, catchment = []\<rparr>]))
          (sa_data t)) \<and>
   ((\<exists>r\<in>set (sa_data t).
       \<exists>b\<in>set (businesses t @ [\<lparr>name = nm, lat = la, lon = lo, catchment = []\<rparr>]).
         isl (scan_dist e r b)) \<longrightarrow>
      isl (snd (add_business e t nm la lo))) \<and>
   (nm \<noteq> [] \<longrightarrow>
      fst (add_business_button e t nm la lo) = fst (add_business e t nm la lo) \<and>
      snd (add_business_button e t nm la lo) =
        (case snd (add_business e t nm la lo) of
           Inl err \<Rightarrow> Raised err
         | Inr b \<Rightarrow> Success (''Added '' @ nm @ ''!'')))"
proof -
  let ?new = "\<lparr>name = nm, lat = la, lon = lo, catchment = []\<rparr>"
  let ?t1 = "t\<lparr>businesses := businesses t @ [?new]\<rparr>"
  have a: "add_business_button e t [] la lo = (t, Error ''Please enter a business name'')"
    by (simp add: add_business_button_def)
  have b: "\<not> isl (snd (add_business e t nm la lo)) \<and>
           sa_data (fst (add_business e t nm la lo)) = map (assign_row e (businesses t @ [?new])) (sa_data t)"
    if "\<forall>r\<in>set (sa_data t). \<forall>b\<in>set (businesses t @ [?new]). \<not> isl (scan_dist e r b)"
  proof -
    from that have "\<forall>r\<in>set (sa_data ?t1). \<forall>b\<in>set (businesses ?t1). \<not> isl (scan_dist e r b)"
      by simp
    from recalculate_returns(1,2)[OF this] show ?thesis
      by (simp add: add_business_fst add_business_snd)
  qed
  have c: "isl (snd (add_business e t nm la lo))"
    if "\<exists>r\<in>set (sa_data t). \<exists>b\<in>set (businesses t @ [?new]). isl (scan_dist e r b)"
  proof -
    from that have "\<exists>r\<in>set (sa_data ?t1). \<exists>b\<in>set (businesses ?t1). isl (scan_dist e r b)"
      by simp
    from recalculate_raises[OF this] show ?thesis
      by (auto simp: add_business_snd split: option.splits)
  qed
  have d: "fst (add_business_button e t nm la lo) = fst (add_business e t nm la lo) \<and>
      snd (add_business_button e t nm la lo) =
        (case snd (add_business e t nm la lo) of
           Inl err \<Rightarrow> Raised err
         | Inr b \<Rightarrow> Success (''Added '' @ nm @ ''!''))"
    if "nm \<noteq> []"
    using that by (auto simp: add_business_button_def split: prod.splits sum.splits)
  from a b c d businesses_add_business[of e t nm la lo] show ?thesis by blast
qed

theorem add_business_no_validation_witness:
  "''A'' \<noteq> [] \<and>
   \<not> isl (scan_dist scipy_euclidean (area_at ''a'' (Fin 0) (Fin 0))
            \<lparr>name = ''A'', lat = Fin 100, lon = Fin 200, catchment = []\<rparr>) \<and>
   \<not> isl (snd (add_business scipy_euclidean tool0 ''A'' (Fin 100) (Fin 200))) \<and>
   sa_data (fst (add_business scipy_euclidean tool0 ''A'' (Fin 100) (Fin 200))) =
     map (assign_row scipy_euclidean [\<lparr>name = ''A'', lat = Fin 100, lon = Fin 200, catchment = []\<rparr>])
       (sa_data tool0) \<and>
   snd (add_business_button scipy_euclidean tool0 ''A'' (Fin 100) (Fin 200)) = Success ''Added A!'' \<and>
   isl (scan_dist scipy_euclidean (area_at ''a'' (Fin 0) (Fin 0))
          \<lparr>name = ''N'', lat = NaN, lon = Fin 0, catchment = []\<rparr>) \<and>
   isl (snd (add_business scipy_euclidean tool0 ''N'' NaN (Fin 0))) \<and>
   map (\<lambda>b. (name b, lat b, lon b)) (businesses (fst (add_business scipy_euclidean tool0 ''N'' NaN (Fin 0)))) =
     [(''N'', NaN, Fin 0)]"
proof -
  have r1: "\<not> isl (scan_dist scipy_euclidean (area_at ''a'' (Fin 0) (Fin 0))
            \<lparr>name = ''A'', lat = Fin 100, lon = Fin 200, catchment = []\<rparr>)"
    by (simp add: scan_dist_def area_at_def far_dist)
  have r2: "isl (scan_dist scipy_euclidean (area_at ''a'' (Fin 0) (Fin 0))
          \<lparr>name = ''N'', lat = NaN, lon = Fin 0, catchment = []\<rparr>)"
    by (simp add: scan_dist_def area_at_def)
  note th1 = add_business_no_validation[of scipy_euclidean tool0 "Fin 100" "Fin 200" "''A''"]
  note th2 = add_business_no_validation[of scipy_euclidean tool0 NaN "Fin 0" "''N''"]
  have s: "snd (add_business scipy_euclidean tool0 ''A'' (Fin 100) (Fin 200)) = Inr b \<Longrightarrow>
           snd (add_business_button scipy_euclidean tool0 ''A'' (Fin 100) (Fin 200)) = Success ''Added A!''" for b
    using th1 by simp
  from th1 r1 have a: "\<not> isl (snd (add_business scipy_euclidean tool0 ''A'' (Fin 100) (Fin 200)))"
    "sa_data (fst (add_business scipy_euclidean tool0 ''A'' (Fin 100) (Fin 200))) =
     map (assign_row scipy_euclidean [\<lparr>name = ''A'', lat = Fin 100, lon = Fin 200, catchment = []\<rparr>])
       (sa_data tool0)"
    by (simp_all add: tool0_rows)
  from a(1) s have m: "snd (add_business_button scipy_euclidean tool0 ''A'' (Fin 100) (Fin 200)) = Success ''Added A!''"
    by (cases "snd (add_business scipy_euclidean tool0 ''A'' (Fin 100) (Fin 200))") simp_all
  from th2 r2 have n: "isl (snd (add_business scipy_euclidean tool0 ''N'' NaN (Fin 0)))"
    "map (\<lambda>b. (name b, lat b, lon b)) (businesses (fst (add_business scipy_euclidean tool0 ''N'' NaN (Fin 0)))) =
     [(''N'', NaN, Fin 0)]"
    by (simp_all add: tool0_rows)
  from r1 r2 a m n show ?thesis by simp
qed

text \<open>
  A latitude of 100 and a longitude of 200 are outside the ranges; the call is accepted, the
  registry grows, the area is reassigned and the handler reports success.
\<close>

theorem add_business_no_validation_counterexample:
  "\<not> fle (Fin 100) (Fin 90) \<and> \<not> fle (Fin 200) (Fin 180) \<and>
   businesses tool0 = [] \<and>
   map assigned_business (sa_data tool0) = [None] \<and>
   map name (businesses (fst (add_business scipy_euclidean tool0 ''A'' (Fin 100) (Fin 200)))) = [''A''] \<and>
   map assigned_business (sa_data (fst (add_business scipy_euclidean tool0 ''A'' (Fin 100) (Fin 200)))) =
     [Some ''A''] \<and>
   snd (add_business_button scipy_euclidean tool0 ''A'' (Fin 100) (Fin 200)) = Success ''Added A!''"
  using add_far_value by (simp add: fle_def tool0_rows area_at_def)

section \<open>Exclusion filtering\<close>

lemma exclusion_loop_filter:
  "exclusion_loop bs rad cands = filter (\<lambda>a. \<forall>b\<in>set bs. fge (dist_to a b) rad) cands"
proof (induction bs arbitrary: cands)
  case Nil
  show ?case by simp
next
  case (Cons b bs)
  show ?case by (simp add: Cons.IH conj_commute)
qed

lemma fge_mono: "flt r1 r2 \<Longrightarrow> fge d r2 \<Longrightarrow> fge d r1"
  by (cases r1; cases r2; cases d) (auto simp: fge_def fle_def)

lemma flt_trans: "flt x y \<Longrightarrow> flt y z \<Longrightarrow> flt x z"
  by (cases x; cases y; cases z) auto

lemma tool_three_dists:
  "dist_to (area_at ''a'' (Fin 0) (Fin 0)) (biz ''A'' (Fin 0) (Fin 0)) = Fin 0"
  "dist_to (area_at ''b'' (Fin 0) (Fin 1)) (biz ''A'' (Fin 0) (Fin 0)) = Fin 1"
  "dist_to (area_at ''c'' (Fin 0) (Fin 2)) (biz ''A'' (Fin 0) (Fin 0)) = Fin 2"
  by (simp_all add: dist_to_def area_at_def biz_def euclidean_def fsub_def)

lemma not_fge_iff_flt: "d \<noteq> NaN \<Longrightarrow> flt (Fin 0) rad \<Longrightarrow> (\<not> fge d rad) = flt d rad"
  by (cases d; cases rad) (auto simp: fge_def fle_def)

text \<open>
  C7 (monotonic exclusion).  For radii \<open>r1 < r2\<close> the candidates left by the exclusion
  filtering with \<open>r2\<close> are among those left with \<open>r1\<close>.
\<close>

theorem monotonic_exclusion:
  assumes "flt r1 r2"
  shows "set (exclusion_filter t r2) \<subseteq> set (exclusion_filter t r1)"
proof (cases "businesses t \<noteq> [] \<and> flt (Fin 0) r1")
  case True
  then have "flt (Fin 0) r2" using assms flt_trans by blast
  with True show ?thesis
    using assms by (auto simp: exclusion_filter_def exclusion_loop_filter intro: fge_mono)
next
  case False
  then show ?thesis by (auto simp: exclusion_filter_def exclusion_loop_filter)
qed

theorem monotonic_exclusion_witness:
  "flt (Fin (1 / 2)) (Fin (3 / 2)) \<and>
   set (exclusion_filter tool_three (Fin (3 / 2))) \<subseteq> set (exclusion_filter tool_three (Fin (1 / 2))) \<and>
   exclusion_filter tool_three (Fin (3 / 2)) = [area_at ''c'' (Fin 0) (Fin 2)] \<and>
   exclusion_filter tool_three (Fin (1 / 2)) = [area_at ''b'' (Fin 0) (Fin 1), area_at ''c'' (Fin 0) (Fin 2)]"
proof -
  have h: "flt (Fin (1 / 2)) (Fin (3 / 2))" by simp
  have v: "exclusion_filter tool_three (Fin (3 / 2)) = [area_at ''c'' (Fin 0) (Fin 2)]"
    "exclusion_filter tool_three (Fin (1 / 2)) = [area_at ''b'' (Fin 0) (Fin 1), area_at ''c'' (Fin 0) (Fin 2)]"
    by (simp_all add: exclusion_filter_def tool_three_def tool_three_dists fge_def fle_def)
  from monotonic_exclusion[OF h, of tool_three] h v show ?thesis by simp
qed

text \<open>
  C5 (exclusion radius).  With at least one business and a radius above 0, an area stays a
  candidate iff its distance to every business is \<open>>=\<close> the radius.  When no distance is
  NaN these are exactly the areas not strictly closer than the radius to any business, so
  an area exactly at the radius stays.  When nothing is left the result is the empty list.
\<close>

theorem exclusion_exact:
  assumes "businesses t \<noteq> []" and "flt (Fin 0) rad"
  shows "exclusion_filter t rad =
           filter (\<lambda>a. \<forall>b\<in>set (businesses t). fge (dist_to a b) rad) (sa_data t) \<and>
         ((\<forall>a\<in>set (sa_data t). \<forall>b\<in>set (businesses t). dist_to a b \<noteq> NaN) \<longrightarrow>
            exclusion_filter t rad =
              filter (\<lambda>a. \<not> (\<exists>b\<in>set (businesses t). flt (dist_to a b) rad)) (sa_data t)) \<and>
         (exclusion_filter t rad = [] \<longrightarrow>
            find_optimal_location t num_locations target_demographics rad = Inr [])"
proof -
  have a: "exclusion_filter t rad =
           filter (\<lambda>a. \<forall>b\<in>set (businesses t). fge (dist_to a b) rad) (sa_data t)"
    using assms by (simp add: exclusion_filter_def exclusion_loop_filter)
  have b: "exclusion_filter t rad =
              filter (\<lambda>a. \<not> (\<exists>b\<in>set (businesses t). flt (dist_to a b) rad)) (sa_data t)"
    if nn: "\<forall>a\<in>set (sa_data t). \<forall>b\<in>set (businesses t). dist_to a b \<noteq> NaN"
    unfolding a
  proof (rule filter_cong[OF refl])
    fix x assume x: "x \<in> set (sa_data t)"
    have "\<And>b. b \<in> set (businesses t) \<Longrightarrow> fge (dist_to x b) rad = (\<not> flt (dist_to x b) rad)"
      using not_fge_iff_flt[OF _ assms(2)] nn x by blast
    then show "(\<forall>b\<in>set (businesses t). fge (dist_to x b) rad) =
               (\<not> (\<exists>b\<in>set (businesses t). flt (dist_to x b) rad))"
      by blast
  qed
  have c: "find_optimal_location t num_locations target_demographics rad = Inr []"
    if "exclusion_filter t rad = []"
    using that by (simp add: find_optimal_location_def)
  from a b c show ?thesis by blast
qed

theorem exclusion_exact_witness:
  "businesses tool_three \<noteq> [] \<and> flt (Fin 0) (Fin 1) \<and>
   dist_to (area_at ''b'' (Fin 0) (Fin 1)) (biz ''A'' (Fin 0) (Fin 0)) = Fin 1 \<and>
   exclusion_filter tool_three (Fin 1) =
     filter (\<lambda>a. \<not> (\<exists>b\<in>set (businesses tool_three). flt (dist_to a b) (Fin 1))) (sa_data tool_three) \<and>
   exclusion_filter tool_three (Fin 1) = [area_at ''b'' (Fin 0) (Fin 1), area_at ''c'' (Fin 0) (Fin 2)] \<and>
   businesses tool_near \<noteq> [] \<and>
   exclusion_filter tool_near (Fin 1) = [] \<and>
   find_optimal_location tool_near 1 None (Fin 1) = Inr []"
proof -
  have h1: "businesses tool_three \<noteq> []" by (simp add: tool_three_def)
  have h2: "flt (Fin 0) (Fin 1)" by simp
  have nn: "\<forall>a\<in>set (sa_data tool_three). \<forall>b\<in>set (businesses tool_three). dist_to a b \<noteq> NaN"
    by (simp add: tool_three_def tool_three_dists)
  have v: "exclusion_filter tool_three (Fin 1) = [area_at ''b'' (Fin 0) (Fin 1), area_at ''c'' (Fin 0) (Fin 2)]"
    by (simp add: exclusion_filter_def tool_three_def tool_three_dists fge_def fle_def)
  have g1: "businesses tool_near \<noteq> []" by (simp add: tool_near_def)
  have g2: "exclusion_filter tool_near (Fin 1) = []"
    by (simp add: exclusion_filter_def tool_near_def tool_three_dists fge_def fle_def)
  from exclusion_exact[OF h1 h2, of 1 None] nn
  have e: "exclusion_filter tool_three (Fin 1) =
     filter (\<lambda>a. \<not> (\<exists>b\<in>set (businesses tool_three). flt (dist_to a b) (Fin 1))) (sa_data tool_three)"
    by blast
  from exclusion_exact[OF g1 h2, of 1 None] g2
  have f: "find_optimal_location tool_near 1 None (Fin 1) = Inr []" by blast
  from e f h1 h2 v g1 g2 tool_three_dists(2) show ?thesis by blast
qed

text \<open>
  A business with a NaN coordinate is at distance NaN from every area; \<open>distances >= radius\<close>
  is false there, so the area is removed although its distance is not below the radius.
\<close>

theorem exclusion_exact_counterexample:
  "businesses tool_nan \<noteq> [] \<and> flt (Fin 0) (Fin (1 / 20)) \<and>
   sa_data tool_nan = [area_at ''a'' (Fin 0) (Fin 0)] \<and>
   exclusion_filter tool_nan (Fin (1 / 20)) = [] \<and>
   \<not> flt (dist_to (area_at ''a'' (Fin 0) (Fin 0)) (biz ''A'' NaN (Fin 0))) (Fin (1 / 20))"
  by (simp add: exclusion_filter_def tool_nan_def dist_to_def area_at_def biz_def euclidean_def
      fsub_def fge_def fle_def)

section \<open>Catchment summaries\<close>

lemma not_fge_NaN [simp]: "\<not> fge NaN v" "\<not> fle NaN v"
  by (simp_all add: fge_def fle_def)

lemma nearest_loop_name:
  "nearest_loop e c bs acc = Inr res \<Longrightarrow> snd res = snd acc \<or> snd res \<in> Some ` name ` set bs"
proof (induction bs arbitrary: acc)
  case Nil
  then show ?case by auto
next
  case (Cons b bs)
  obtain md nb where acc: "acc = (md, nb)" by (cases acc)
  from Cons.prems obtain d where d: "e c (lat b, lon b) = Inr d"
    by (auto simp: acc split: sum.splits)
  show ?case
  proof (cases "flt d md")
    case True
    with Cons.prems d have "nearest_loop e c bs (d, Some (name b)) = Inr res" by (simp add: acc)
    from Cons.IH[OF this] show ?thesis by auto
  next
    case False
    with Cons.prems d have "nearest_loop e c bs (md, nb) = Inr res" by (simp add: acc)
    from Cons.IH[OF this] show ?thesis by (auto simp: acc)
  qed
qed

lemma assign_rows_known:
  assumes "\<forall>r\<in>set rs. assigned_business r = None"
    and "r \<in> set (fst (assign_rows e bs rs))" and "assigned_business r = Some nm"
  shows "nm \<in> name ` set bs"
  using assms
proof (induction rs arbitrary: r)
  case Nil
  then show ?case by simp
next
  case (Cons a rs)
  show ?case
  proof (cases "nearest_loop e (latitude a, longitude a) bs (PInf, None)")
    case (Inl err)
    with Cons.prems show ?thesis by auto
  next
    case (Inr res)
    obtain md nb where res: "res = (md, nb)" by (cases res)
    from nearest_loop_name[OF Inr] have nb: "nb = None \<or> nb \<in> Some ` name ` set bs"
      by (simp add: res)
    from Cons.prems(2) Inr res
    have "r = a\<lparr>assigned_business := nb, distance_to_business := md\<rparr> \<or> r \<in> set (fst (assign_rows e bs rs))"
      by (auto split: prod.splits)
    then show ?thesis
    proof
      assume "r = a\<lparr>assigned_business := nb, distance_to_business := md\<rparr>"
      with Cons.prems(3) nb show ?thesis by auto
    next
      assume "r \<in> set (fst (assign_rows e bs rs))"
      with Cons.IH Cons.prems(1,3) show ?thesis by simp
    qed
  qed
qed

lemma recalculate_known:
  assumes "r \<in> set (sa_data (fst (recalculate_catchments e t)))" and "assigned_business r = Some nm"
  shows "nm \<in> set (map name (businesses (fst (recalculate_catchments e t))))"
proof -
  have names: "map name (businesses (fst (recalculate_catchments e t))) = map name (businesses t)"
  proof -
    have "map name (businesses (fst (recalculate_catchments e t))) =
          map (fst \<circ> (\<lambda>b. (name b, lat b, lon b))) (businesses (fst (recalculate_catchments e t)))"
      by (simp add: comp_def)
    also have "\<dots> = map fst (map (\<lambda>b. (name b, lat b, lon b)) (businesses t))"
      by (simp only: map_map[symmetric] recalculate_places)
    finally show ?thesis by (simp add: comp_def)
  qed
  show ?thesis
  proof (cases "businesses t = []")
    case True
    with assms show ?thesis by (auto simp: recalculate_catchments_def)
  next
    case False
    have reset: "\<forall>r\<in>set (map reset_row (sa_data t)). assigned_business r = None" by simp
    from assms(1) False
    have "r \<in> set (fst (assign_rows e (businesses t) (map reset_row (sa_data t))))"
      by (auto simp: recalculate_catchments_def split: prod.splits option.splits)
    from assign_rows_known[OF reset this assms(2)] show ?thesis by (simp add: names)
  qed
qed

lemma apply_mutation_recalculate: "\<exists>t'. apply_mutation e t m = fst (recalculate_catchments e t')"
  by (cases m) (auto simp: add_business_fst remove_business_def)

lemma run_assigned_known:
  assumes "r \<in> set (sa_data (run e (init rows dts) ms))" and "assigned_business r = Some nm"
  shows "nm \<in> set (map name (businesses (run e (init rows dts) ms)))"
proof (cases ms rule: rev_cases)
  case Nil
  with assms show ?thesis by (auto simp: run_def init_def)
next
  case (snoc ms' m)
  obtain t' where t': "run e (init rows dts) ms = fst (recalculate_catchments e t')"
    using apply_mutation_recalculate[of e "run e (init rows dts) ms'" m] by (auto simp: snoc run_snoc)
  from assms show ?thesis unfolding t' by (rule recalculate_known)
qed

lemma summarize_Nil: "summarize [] = zero_row_summary"
  by (simp add: summarize_def zero_row_summary_def series_sum_def series_mean_def series_max_def dropna_def)

lemma apply_filters_Nil: "apply_filters df [] = []"
  by (simp add: apply_filters_def Let_def split: option.splits)

text \<open>
  C8 (empty subset).  When the selected and filtered rows are none, the summary has total
  population 0 and area count 0, and its three means are NaN, not zero.
\<close>

theorem empty_subset_summary:
  assumes "catchment_rows t business_name demographic_filters = []"
  shows "s_total_population (get_catchment_summary t business_name demographic_filters) = Fin 0 \<and>
         s_num_areas (get_catchment_summary t business_name demographic_filters) = 0 \<and>
         s_avg_income (get_catchment_summary t business_name demographic_filters) = NaN \<and>
         s_avg_age (get_catchment_summary t business_name demographic_filters) = NaN \<and>
         s_avg_distance (get_catchment_summary t business_name demographic_filters) = NaN"
  using assms
  by (simp add: get_catchment_summary_def summarize_def series_sum_def series_mean_def dropna_def)

theorem empty_subset_summary_witness:
  "catchment_rows tool0 None (Some [(''min_income'', Fin 60000)]) = [] \<and>
   s_total_population (get_catchment_summary tool0 None (Some [(''min_income'', Fin 60000)])) = Fin 0 \<and>
   s_num_areas (get_catchment_summary tool0 None (Some [(''min_income'', Fin 60000)])) = 0 \<and>
   s_avg_income (get_catchment_summary tool0 None (Some [(''min_income'', Fin 60000)])) = NaN \<and>
   s_avg_age (get_catchment_summary tool0 None (Some [(''min_income'', Fin 60000)])) = NaN \<and>
   s_avg_distance (get_catchment_summary tool0 None (Some [(''min_income'', Fin 60000)])) = NaN"
proof -
  have h: "catchment_rows tool0 None (Some [(''min_income'', Fin 60000)]) = []"
    by (simp add: catchment_rows_def selected_rows_def apply_filters_def tool0_def init_def
        area_at_def fge_def fle_def)
  from empty_subset_summary[OF h] h show ?thesis by simp
qed

text \<open>
  C10 (income filters and undefined income).  When a \<open>min_income\<close> or a \<open>max_income\<close>
  filter is supplied, no area whose average income is NaN is in the summarized rows;
  without filters, and with filters that name neither key, the summarized rows are all the
  selected rows, whatever their income.
\<close>

theorem income_filter_excludes_undefined:
  assumes "map_of f ''min_income'' \<noteq> None \<or> map_of f ''max_income'' \<noteq> None"
    and "avg_income r = NaN"
  shows "r \<notin> set (catchment_rows t business_name (Some f)) \<and>
         catchment_rows t business_name None = selected_rows t business_name \<and>
         (map_of g ''min_income'' = None \<and> map_of g ''max_income'' = None \<longrightarrow>
            catchment_rows t business_name (Some g) = selected_rows t business_name)"
proof -
  have ne: "f \<noteq> []" using assms(1) by auto
  have "r \<notin> set (catchment_rows t business_name (Some f))"
    using assms ne by (auto simp: catchment_rows_def apply_filters_def Let_def split: option.splits)
  moreover have "catchment_rows t business_name None = selected_rows t business_name"
    by (simp add: catchment_rows_def apply_filters_def)
  moreover have "catchment_rows t business_name (Some g) = selected_rows t business_name"
    if "map_of g ''min_income'' = None \<and> map_of g ''max_income'' = None"
    using that by (simp add: catchment_rows_def apply_filters_def)
  ultimately show ?thesis by blast
qed

theorem income_filter_excludes_undefined_witness:
  "map_of [(''max_income'', Fin 60000)] ''max_income'' \<noteq> None \<and>
   avg_income (hd (sa_data tool_no_income)) = NaN \<and>
   hd (sa_data tool_no_income) \<notin> set (catchment_rows tool_no_income None (Some [(''max_income'', Fin 60000)])) \<and>
   catchment_rows tool_no_income None (Some [(''max_income'', Fin 60000)]) = [] \<and>
   catchment_rows tool_no_income None None = sa_data tool_no_income \<and>
   catchment_rows tool_no_income None (Some [(''min_age'', Fin 25), (''max_age'', Fin 54)]) = sa_data tool_no_income"
proof -
  have h1: "map_of [(''max_income'', Fin 60000)] ''min_income'' \<noteq> None \<or>
            map_of [(''max_income'', Fin 60000)] ''max_income'' \<noteq> None" by simp
  have h2: "avg_income (hd (sa_data tool_no_income)) = NaN"
    by (simp add: tool_no_income_def area_at_def)
  have s: "selected_rows tool_no_income None = sa_data tool_no_income"
    by (simp add: selected_rows_def)
  have e: "catchment_rows tool_no_income None (Some [(''max_income'', Fin 60000)]) = []"
    by (simp add: catchment_rows_def selected_rows_def apply_filters_def tool_no_income_def area_at_def)
  from income_filter_excludes_undefined[OF h1 h2, of tool_no_income None
          "[(''min_age'', Fin 25), (''max_age'', Fin 54)]"] h2 s e
  show ?thesis by simp
qed

text \<open>
  C9 (unknown business name).  In every state reached from the constructor by additions and
  removals, whether those calls returned or raised, the summary for a non-empty name that no
  business of the registry bears is the summary of no rows, for every choice of filters.
\<close>

theorem unknown_name_summary:
  assumes "nm \<noteq> []" and "nm \<notin> set (map name (businesses (run e (init rows dts) ms)))"
  shows "get_catchment_summary (run e (init rows dts) ms) (Some nm) demographic_filters = zero_row_summary"
proof -
  have "filter (\<lambda>r. assigned_business r = Some nm) (sa_data (run e (init rows dts) ms)) = []"
    using run_assigned_known assms(2) by (auto simp: filter_empty_conv)
  then have "selected_rows (run e (init rows dts) ms) (Some nm) = []"
    using assms(1) by (simp add: selected_rows_def)
  then show ?thesis
    by (simp add: get_catchment_summary_def catchment_rows_def apply_filters_Nil summarize_Nil)
qed

theorem unknown_name_summary_witness:
  "''C'' \<noteq> [] \<and>
   map name (businesses (run scipy_euclidean (init [area_at ''a'' (Fin 0) (Fin 0)] []) mutations_ok)) = [''B''] \<and>
   get_catchment_summary (run scipy_euclidean (init [area_at ''a'' (Fin 0) (Fin 0)] []) mutations_ok) (Some ''C'') None =
     zero_row_summary \<and>
   s_num_areas (get_catchment_summary (run scipy_euclidean (init [area_at ''a'' (Fin 0) (Fin 0)] []) mutations_ok) (Some ''A'') None) = 0"
proof -
  let ?t = "run scipy_euclidean (init [area_at ''a'' (Fin 0) (Fin 0)] []) mutations_ok"
  have n: "map name (businesses ?t) = [''B'']" by (rule run_ok_value)
  have h2: "''C'' \<notin> set (map name (businesses ?t))" "''A'' \<notin> set (map name (businesses ?t))"
    unfolding n by simp_all
  from unknown_name_summary[OF _ h2(1), of None] unknown_name_summary[OF _ h2(2), of None] n
  show ?thesis by (simp add: zero_row_summary_def)
qed

text \<open>
  The empty string is a name no business bears here, and \<open>if business_name:\<close> takes it as
  absent: the summary covers every area.
\<close>

theorem unknown_name_summary_counterexample:
  "businesses tool0 = [] \<and>
   s_num_areas (get_catchment_summary tool0 (Some []) None) = 1 \<and>
   s_total_population (get_catchment_summary tool0 (Some []) None) = Fin 100 \<and>
   s_avg_income (get_catchment_summary tool0 (Some []) None) = Fin 55000"
  by (simp add: get_catchment_summary_def catchment_rows_def selected_rows_def apply_filters_def
      summarize_def series_sum_def series_mean_def dropna_def tool0_def init_def area_at_def)

section \<open>Signal normalization and scoring\<close>
















lemma length_minmax_normalize [simp]: "length (minmax_normalize s) = length s"
  by (simp add: minmax_normalize_def)













end
